theory Spec2Isabelle
  imports Complex_Main
begin

section \<open>Python strings\<close>

text \<open>
  A Python \<open>str\<close> is modelled as a \<open>string\<close> of ASCII characters. The operations
  below are the ones the sources use: \<open>str.lower\<close>, \<open>str.split\<close> with no argument,
  \<open>' '.join\<close>, the substring test \<open>a in b\<close>, \<open>str.startswith\<close> and list slicing.
\<close>

definition isspace :: "char \<Rightarrow> bool" where
  "isspace c = (c \<in> set [CHR 0x09, CHR 0x0A, CHR 0x0B, CHR 0x0C, CHR 0x0D,
                          CHR 0x1C, CHR 0x1D, CHR 0x1E, CHR 0x1F, CHR 0x20])"

definition lower_char :: "char \<Rightarrow> char" where
  "lower_char c =
     (case map_of (zip ''ABCDEFGHIJKLMNOPQRSTUVWXYZ'' ''abcdefghijklmnopqrstuvwxyz'') c of
        None \<Rightarrow> c
      | Some l \<Rightarrow> l)"

definition lower :: "string \<Rightarrow> string" where
  "lower s = map lower_char s"

text \<open>\<open>text.split()\<close>: maximal runs of non-whitespace characters, in order.\<close>

fun split_from :: "string \<Rightarrow> string \<Rightarrow> string list" where
  "split_from cur [] = (if cur = [] then [] else [cur])"
| "split_from cur (c # cs) =
     (if isspace c then (if cur = [] then split_from [] cs else cur # split_from [] cs)
      else split_from (cur @ [c]) cs)"

definition split :: "string \<Rightarrow> string list" where
  "split s = split_from [] s"

fun join :: "string \<Rightarrow> string list \<Rightarrow> string" where
  "join sep [] = []"
| "join sep [w] = w"
| "join sep (w # v # ws) = w @ sep @ join sep (v # ws)"

fun startswith :: "string \<Rightarrow> string \<Rightarrow> bool" where
  "startswith s [] = True"
| "startswith [] (p # ps) = False"
| "startswith (c # cs) (p # ps) = (c = p \<and> startswith cs ps)"

text \<open>\<open>str_in sub s\<close> is Python's \<open>sub in s\<close> on strings.\<close>

fun str_in :: "string \<Rightarrow> string \<Rightarrow> bool" where
  "str_in sub [] = (sub = [])"
| "str_in sub (c # cs) = (startswith (c # cs) sub \<or> str_in sub cs)"

text \<open>\<open>slice xs a b\<close> is \<open>xs[a:b]\<close> for \<open>0 \<le> a\<close> and \<open>0 \<le> b\<close>.\<close>

definition slice :: "'a list \<Rightarrow> nat \<Rightarrow> nat \<Rightarrow> 'a list" where
  "slice xs a b = take (b - a) (drop a xs)"

section \<open>The lexicon: \<open>FeatureExtractor.__init__\<close> and \<open>_buildFeatureMappings\<close>\<close>

text \<open>
  \<open>FURNITURE_CATEGORY\<close> and \<open>CATEGORY_MAPPINGS\<close> live in \<open>config/constants.py\<close>, which is
  not among the sources; both are parameters. \<open>FURNITURE_CATEGORY\<close> is a dict from a main
  feature to its synonyms, given by its items in iteration order; \<open>CATEGORY_MAPPINGS\<close> is a
  dict read with \<open>.get(main_feature, 'Other')\<close>.

  \<open>all_synonyms\<close> is a Python set; the model keeps its elements in a duplicate-free list.
\<close>

record FeatureExtractor =
  all_synonyms :: "string list"
  synonym_to_feature :: "string \<rightharpoonup> string"
  feature_to_category :: "string \<rightharpoonup> string"

definition buildFeatureMappings_item ::
  "(string \<times> string) list \<Rightarrow> FeatureExtractor \<Rightarrow> string \<times> string list \<Rightarrow> FeatureExtractor" where
  "buildFeatureMappings_item CATEGORY_MAPPINGS self item =
     (case item of (main_feature, synonyms) \<Rightarrow>
        self\<lparr> synonym_to_feature := (synonym_to_feature self)(lower main_feature \<mapsto> main_feature),
              all_synonyms := List.insert (lower main_feature) (all_synonyms self),
              feature_to_category := (feature_to_category self)
                (main_feature \<mapsto> (case map_of CATEGORY_MAPPINGS main_feature of
                                     None \<Rightarrow> ''Other'' | Some category \<Rightarrow> category)) \<rparr>)"

definition buildFeatureMappings ::
  "(string \<times> string list) list \<Rightarrow> (string \<times> string) list \<Rightarrow> FeatureExtractor" where
  "buildFeatureMappings FURNITURE_CATEGORY CATEGORY_MAPPINGS =
     foldl (buildFeatureMappings_item CATEGORY_MAPPINGS)
       \<lparr> all_synonyms = [], synonym_to_feature = Map.empty, feature_to_category = Map.empty \<rparr>
       FURNITURE_CATEGORY"

section \<open>The windowed scan: \<open>_getCategoriesFromText\<close>\<close>

text \<open>
  The helper \<open>fuzzyMatch\<close> of \<open>utils/helpers.py\<close> is not among the sources. The scan takes
  it as a parameter: called with the phrase, the vocabulary and the threshold, it gives
  \<open>Some m\<close> for a truthy result whose component \<open>result[0]\<close> is \<open>m\<close>, and \<open>None\<close> for a
  falsy result. The thresholds \<open>0.96\<close> and \<open>0.93\<close> are the rationals \<open>96/100\<close> and
  \<open>93/100\<close>.
\<close>

type_synonym fuzzy_helper = "string \<Rightarrow> string list \<Rightarrow> rat \<Rightarrow> string option"

definition fuzzy_threshold :: "string \<Rightarrow> rat" where
  "fuzzy_threshold phrase =
     (if str_in ''detail'' phrase \<or> str_in ''metal'' phrase then 96 / 100 else 93 / 100)"

text \<open>Lines 94--115: the value of \<open>matched_feature\<close> for a window phrase.\<close>

definition matchPhrase :: "FeatureExtractor \<Rightarrow> fuzzy_helper \<Rightarrow> string \<Rightarrow> string option" where
  "matchPhrase self fuzzyMatch phrase =
     (if synonym_to_feature self phrase \<noteq> None then synonym_to_feature self phrase
      else if length phrase > 6 then
        (case fuzzyMatch phrase (all_synonyms self) (fuzzy_threshold phrase) of
           None \<Rightarrow> None
         | Some fuzzy_match \<Rightarrow> synonym_to_feature self fuzzy_match)
      else None)"

text \<open>
  \<open>_hasContextualMatch\<close>. \<open>max(0, position - 2)\<close> is the subtraction of naturals, which
  stops at \<open>0\<close>.
\<close>

definition furniture_parts :: "string list" where
  "furniture_parts = [''sofa'', ''chair'', ''back'', ''seat'', ''arm'', ''cushion'']"

definition hasContextualMatch :: "string \<Rightarrow> string list \<Rightarrow> nat \<Rightarrow> bool" where
  "hasContextualMatch phrase words position =
     (if str_in ''leather'' phrase then
        (let context_window = slice words (position - 2) (min (length words) (position + 3))
         in list_ex (\<lambda>part. str_in part (lower (join '' '' context_window))) furniture_parts)
      else True)"

text \<open>
  The state of one scan. \<open>accepted\<close> is the sequence of accepted matches, each with its
  \<open>window_indices\<close> and its \<open>matched_feature\<close>, as the scan writes them to the debug log
  (lines 128--130); the returned value does not depend on it.
\<close>

record scan_state =
  consumed_indices :: "nat set"
  detected_features :: "string list"
  accepted :: "(nat list \<times> string) list"

text \<open>
  The body of the inner loop (lines 86--134) for one \<open>window_size\<close> and \<open>start_idx\<close>.
  \<open>if matched_feature:\<close> is false for \<open>None\<close> and for the empty string.
\<close>

definition window_step ::
  "FeatureExtractor \<Rightarrow> fuzzy_helper \<Rightarrow> string list \<Rightarrow> nat \<Rightarrow> scan_state \<Rightarrow> nat \<Rightarrow> scan_state" where
  "window_step self fuzzyMatch words window_size st start_idx =
     (let window_indices = [start_idx ..< start_idx + window_size] in
      if list_ex (\<lambda>idx. idx \<in> consumed_indices st) window_indices then st
      else
        (let phrase = join '' '' (slice words start_idx (start_idx + window_size)) in
         case matchPhrase self fuzzyMatch phrase of
           None \<Rightarrow> st
         | Some matched_feature \<Rightarrow>
             if matched_feature = [] then st
             else if hasContextualMatch phrase words start_idx then
               (if matched_feature \<notin> set (detected_features st) then
                  st\<lparr> detected_features := detected_features st @ [matched_feature],
                      consumed_indices := consumed_indices st \<union> set window_indices,
                      accepted := accepted st @ [(window_indices, matched_feature)] \<rparr>
                else st)
             else st))"

text \<open>
  \<open>range(word_count - window_size + 1)\<close> is empty when its argument is not positive; on
  naturals \<open>word_count + 1 - window_size\<close> is \<open>0\<close> in exactly that case.
\<close>

definition scan_window_size ::
  "FeatureExtractor \<Rightarrow> fuzzy_helper \<Rightarrow> string list \<Rightarrow> scan_state \<Rightarrow> nat \<Rightarrow> scan_state" where
  "scan_window_size self fuzzyMatch words st window_size =
     foldl (window_step self fuzzyMatch words window_size) st
       [0 ..< length words + 1 - window_size]"

definition scan :: "FeatureExtractor \<Rightarrow> fuzzy_helper \<Rightarrow> string list \<Rightarrow> scan_state" where
  "scan self fuzzyMatch words =
     foldl (scan_window_size self fuzzyMatch words)
       \<lparr> consumed_indices = {}, detected_features = [], accepted = [] \<rparr>
       [4, 3, 2, 1]"

definition getCategoriesFromText :: "FeatureExtractor \<Rightarrow> fuzzy_helper \<Rightarrow> string \<Rightarrow> string list" where
  "getCategoriesFromText self fuzzyMatch text = detected_features (scan self fuzzyMatch (split text))"

section \<open>\<open>extractFeatures\<close>: the scan followed by the disambiguation\<close>

text \<open>Lines 208--213, on the lowercased text and the list the scan returned.\<close>

definition disambiguate :: "string \<Rightarrow> string list \<Rightarrow> string list" where
  "disambiguate text_lower detected =
     (if list_ex (\<lambda>f. str_in ''l shape'' f) detected \<and> list_ex (\<lambda>f. str_in ''c shape'' f) detected
      then
        (if str_in ''l'' text_lower \<and> \<not> str_in ''c'' text_lower
         then filter (\<lambda>f. f \<noteq> ''c shape'') detected
         else if str_in ''c'' text_lower \<and> \<not> str_in ''l'' text_lower
         then filter (\<lambda>f. f \<noteq> ''l shape'') detected
         else detected)
      else detected)"

definition extractFeatures :: "FeatureExtractor \<Rightarrow> fuzzy_helper \<Rightarrow> string \<Rightarrow> string list" where
  "extractFeatures self fuzzyMatch text =
     (let text_lower = lower text
      in disambiguate text_lower (getCategoriesFromText self fuzzyMatch text_lower))"

section \<open>The contextual pattern matcher: \<open>_extractContextualCategories\<close>\<close>

text \<open>\<open>s.replace(old, new)\<close>: every occurrence of \<open>old\<close>, left to right, without overlap.\<close>

function replace_from :: "string \<Rightarrow> string \<Rightarrow> string \<Rightarrow> string" where
  "replace_from old new s =
     (if old = [] \<or> s = [] then s
      else if startswith s old then new @ replace_from old new (drop (length old) s)
      else hd s # replace_from old new (tl s))"
  by pat_completeness auto
termination
  by (relation "measure (\<lambda>(old, new, s). length s)") auto

text \<open>With an empty \<open>old\<close>, Python puts \<open>new\<close> before every character and at the end.\<close>

definition replace :: "string \<Rightarrow> string \<Rightarrow> string \<Rightarrow> string" where
  "replace s old new =
     (if old = [] then new @ concat (map (\<lambda>c. c # new) s) else replace_from old new s)"

text \<open>
  \<open>FEATURE_CONTEXTUAL_PATTERNS\<close> and \<open>FUZZY_PATTERNS\<close> (of \<open>config/constants.py\<close>) and
  the regular-expression engine are parameters: \<open>re_search pattern text\<close> says whether
  \<open>re.search(pattern, text, re.IGNORECASE)\<close> finds a match, and \<open>re_finditer pattern text\<close>
  lists \<open>match.group()\<close> for the matches of \<open>re.finditer\<close>, in order.

  \<open>contextual_pass\<close> is the loop over \<open>FEATURE_CONTEXTUAL_PATTERNS\<close>, which the function
  runs on the text (lines 173--177) and on each corrected text (lines 184--188).
\<close>

definition contextual_pass ::
  "('p \<Rightarrow> string \<Rightarrow> bool) \<Rightarrow> ('p \<times> string) list \<Rightarrow> (string \<times> string list) list
     \<Rightarrow> string \<Rightarrow> string list \<Rightarrow> string list" where
  "contextual_pass re_search FEATURE_CONTEXTUAL_PATTERNS FURNITURE_CATEGORY text detected =
     foldl (\<lambda>detected (pattern, feature).
              if re_search pattern text then
                (let feature_lower = lower feature in
                 if feature_lower \<in> set (map fst FURNITURE_CATEGORY) \<and> feature_lower \<notin> set detected
                 then detected @ [feature_lower] else detected)
              else detected)
       detected FEATURE_CONTEXTUAL_PATTERNS"

definition extractContextualCategories ::
  "('p \<Rightarrow> string \<Rightarrow> bool) \<Rightarrow> ('q \<Rightarrow> string \<Rightarrow> string list) \<Rightarrow> ('p \<times> string) list
     \<Rightarrow> ('q \<times> string) list \<Rightarrow> (string \<times> string list) list \<Rightarrow> string \<Rightarrow> string list" where
  "extractContextualCategories re_search re_finditer FEATURE_CONTEXTUAL_PATTERNS FUZZY_PATTERNS
       FURNITURE_CATEGORY text =
     foldl (\<lambda>detected (pattern, corrected_word).
              foldl (\<lambda>detected matched.
                       contextual_pass re_search FEATURE_CONTEXTUAL_PATTERNS FURNITURE_CATEGORY
                         (replace text matched corrected_word) detected)
                detected (re_finditer pattern text))
       (contextual_pass re_search FEATURE_CONTEXTUAL_PATTERNS FURNITURE_CATEGORY text [])
       FUZZY_PATTERNS"

section \<open>Python values and exceptions\<close>

text \<open>
  Values whose type the sources do not fix statically (the fields of the result
  dataclasses, the rows of the database, the returned dicts) are Python values; a dict
  is the list of its items.
\<close>

datatype pyval =
    PyNone
  | PyBool bool
  | PyInt int
  | PyFloat rat
  | PyStr string
  | PyList "pyval list"
  | PyDict "(string \<times> pyval) list"

datatype error = ValueError | TypeError | CollaboratorError string

section \<open>The orchestrator: \<open>FurnitureParser.structureQuery\<close>\<close>

record ParserResult =
  product_type :: pyval
  features :: pyval
  price_range :: pyval
  location :: pyval
  styles :: pyval
  classification_summary :: pyval
  extras :: pyval
  confidence_score :: pyval
  original_query :: pyval
  suggested_query :: pyval

definition ParserResult_fields :: "string list" where
  "ParserResult_fields =
     [''product_type'', ''features'', ''price_range'', ''location'', ''styles'',
      ''classification_summary'', ''extras'', ''confidence_score'', ''original_query'',
      ''suggested_query'']"

text \<open>
  The \<open>__init__\<close> that \<open>@dataclass\<close> generates for \<open>ParserResult\<close>, called with keyword
  arguments: no field has a default, so a call that leaves one out, or passes a keyword
  that is not a field, raises \<open>TypeError\<close>.
\<close>

definition kwarg :: "(string \<times> pyval) list \<Rightarrow> string \<Rightarrow> pyval" where
  "kwarg kwargs k = (case map_of kwargs k of None \<Rightarrow> PyNone | Some v \<Rightarrow> v)"

definition ParserResult_init :: "(string \<times> pyval) list \<Rightarrow> error + ParserResult" where
  "ParserResult_init kwargs =
     (if list_all (\<lambda>k. map_of kwargs k \<noteq> None) ParserResult_fields
         \<and> list_all (\<lambda>k. k \<in> set ParserResult_fields) (map fst kwargs)
      then Inr \<lparr> product_type = kwarg kwargs ''product_type'',
                 features = kwarg kwargs ''features'',
                 price_range = kwarg kwargs ''price_range'',
                 location = kwarg kwargs ''location'',
                 styles = kwarg kwargs ''styles'',
                 classification_summary = kwarg kwargs ''classification_summary'',
                 extras = kwarg kwargs ''extras'',
                 confidence_score = kwarg kwargs ''confidence_score'',
                 original_query = kwarg kwargs ''original_query'',
                 suggested_query = kwarg kwargs ''suggested_query'' \<rparr>
      else Inl TypeError)"

text \<open>
  \<open>a, b = xs\<close> on a list: \<open>ValueError\<close> unless the list has exactly two elements.
\<close>

definition unpack_pair :: "'a list \<Rightarrow> error + ('a \<times> 'a)" where
  "unpack_pair xs = (case xs of [a, b] \<Rightarrow> Inr (a, b) | _ \<Rightarrow> Inl ValueError)"

text \<open>
  The product-type, classification and price extractors are not among the sources; they
  are parameters that return their value or raise. \<open>extractFeatures\<close> returns the
  feature list (line 215), which line 51 unpacks into \<open>features\<close> and
  \<open>corrected_query\<close>; the call of \<open>ParserResult\<close> (lines 57--67) passes no \<open>styles\<close>.
  The local variables \<open>features\<close> and \<open>price_range\<close> are \<open>features_value\<close> and
  \<open>price_range_value\<close> here, the field names being taken.
\<close>

definition structureQuery ::
  "(string \<Rightarrow> error + string list \<times> rat list \<times> string) \<Rightarrow> FeatureExtractor \<Rightarrow> fuzzy_helper
     \<Rightarrow> (string \<Rightarrow> error + pyval) \<Rightarrow> (string \<Rightarrow> error + pyval) \<Rightarrow> string
     \<Rightarrow> error + ParserResult" where
  "structureQuery classifyProductType feature_extractor fuzzyMatch extractClassification
       extractPriceRange query =
     (case classifyProductType query of
        Inl e \<Rightarrow> Inl e
      | Inr (product_types, product_confidence, corrected_query) \<Rightarrow>
     (case unpack_pair (extractFeatures feature_extractor fuzzyMatch corrected_query) of
        Inl e \<Rightarrow> Inl e
      | Inr (features_value, corrected_query) \<Rightarrow>
     (case extractClassification query of
        Inl e \<Rightarrow> Inl e
      | Inr classifications \<Rightarrow>
     (case extractPriceRange query of
        Inl e \<Rightarrow> Inl e
      | Inr price_range_value \<Rightarrow>
          ParserResult_init
            [(''product_type'',
                if product_types \<noteq> [''Unknown''] then PyList (map PyStr product_types)
                else PyList []),
             (''features'', PyStr features_value),
             (''price_range'', price_range_value),
             (''location'', PyStr []),
             (''confidence_score'',
                case product_confidence of [] \<Rightarrow> PyFloat 0 | c # _ \<Rightarrow> PyFloat c),
             (''classification_summary'', classifications),
             (''extras'', PyList []),
             (''original_query'', PyStr query),
             (''suggested_query'',
                if corrected_query \<noteq> query then PyStr corrected_query else PyNone)]))))"

section \<open>Query suggestion: \<open>QuerySuggestion\<close> and its extractors\<close>

text \<open>
  \<open>DatabaseManager._fetchData\<close>. The connection, the cursor and the SQL query are the
  parameter \<open>run_query\<close>: for a table and the text it gives the fetched rows, each an
  \<open>id\<close> and a \<open>name\<close>, or raises. Every exception is caught and turned into \<open>[]\<close>, and
  the \<open>finally\<close> block cannot raise (\<open>_releaseConnection\<close> catches what it does).
\<close>

type_synonym database = "string \<Rightarrow> string \<Rightarrow> error + (pyval \<times> pyval) list"

definition fetchData :: "database \<Rightarrow> string \<Rightarrow> string \<Rightarrow> pyval list" where
  "fetchData run_query table text =
     (case run_query table text of
        Inl e \<Rightarrow> []
      | Inr rows \<Rightarrow>
          map (\<lambda>row. PyDict [(''id'', fst row), (''name'', snd row)])
            (filter (\<lambda>row. fst row \<noteq> PyNone) rows))"

text \<open>
  \<open>ProductBrandExtractor.extractProductBrandName\<close>: the dict with the keys
  \<open>product_name\<close> and \<open>brand_name\<close>, as the pair of its two values.
  \<open>PRODUCT_TABLE\<close> and \<open>BRAND_TABLE\<close> (of \<open>config/constants.py\<close>) are parameters.
\<close>

definition extractProductBrandName ::
  "database \<Rightarrow> string \<Rightarrow> string \<Rightarrow> string \<Rightarrow> pyval list \<times> pyval list" where
  "extractProductBrandName run_query PRODUCT_TABLE BRAND_TABLE text =
     (fetchData run_query PRODUCT_TABLE text, fetchData run_query BRAND_TABLE text)"

definition upper_char :: "char \<Rightarrow> char" where
  "upper_char c =
     (case map_of (zip ''abcdefghijklmnopqrstuvwxyz'' ''ABCDEFGHIJKLMNOPQRSTUVWXYZ'') c of
        None \<Rightarrow> c
      | Some u \<Rightarrow> u)"

definition is_cased :: "char \<Rightarrow> bool" where
  "is_cased c = (c \<in> set ''abcdefghijklmnopqrstuvwxyzABCDEFGHIJKLMNOPQRSTUVWXYZ'')"

text \<open>
  \<open>str.title\<close>: a letter that follows a letter is lowercased, any other letter is
  uppercased.
\<close>

fun title_from :: "bool \<Rightarrow> string \<Rightarrow> string" where
  "title_from previous_is_cased [] = []"
| "title_from previous_is_cased (c # cs) =
     (if is_cased c
      then (if previous_is_cased then lower_char c else upper_char c) # title_from True cs
      else c # title_from False cs)"

definition title :: "string \<Rightarrow> string" where
  "title s = title_from False s"

text \<open>
  \<open>StyleExtractor\<close>: \<open>FURNITURE_STYLES\<close> (of \<open>config/constants.py\<close>) is a parameter, the
  items of a dict from a main style to its synonyms; \<open>all_style_terms\<close> is a set, kept
  as a duplicate-free list.
\<close>

definition buildStyleMappings :: "(string \<times> string list) list \<Rightarrow> string list" where
  "buildStyleMappings FURNITURE_STYLES =
     foldl (\<lambda>all_style_terms item. List.insert (lower (fst item)) all_style_terms)
       [] FURNITURE_STYLES"

definition extractStyles :: "string list \<Rightarrow> string \<Rightarrow> string list" where
  "extractStyles all_style_terms text =
     (let text_lower = lower text
      in take 10 (map title (filter (\<lambda>style. startswith (lower style) text_lower) all_style_terms)))"

record SuggestionResult =
  brand_name :: pyval
  product_name :: pyval
  styles :: pyval

text \<open>\<open>x or []\<close> for a list \<open>x\<close>: the empty list is falsy.\<close>

definition or_empty :: "pyval list \<Rightarrow> pyval list" where
  "or_empty x = (if x = [] then [] else x)"

definition suggestsQuery ::
  "database \<Rightarrow> string \<Rightarrow> string \<Rightarrow> string list \<Rightarrow> string \<Rightarrow> SuggestionResult" where
  "suggestsQuery run_query PRODUCT_TABLE BRAND_TABLE all_style_terms query =
     (let data = extractProductBrandName run_query PRODUCT_TABLE BRAND_TABLE query;
          product_names = fst data;
          brand_names = snd data;
          style_names = extractStyles all_style_terms query
      in \<lparr> brand_name = PyList (or_empty brand_names),
           product_name = PyList (or_empty product_names),
           styles = PyList (map PyStr style_names) \<rparr>)"

text \<open>
  \<open>if result:\<close> on an instance of the dataclass \<open>SuggestionResult\<close>: the class defines
  neither \<open>__bool__\<close> nor \<open>__len__\<close>, so every instance is truthy.
\<close>

definition truthy :: "SuggestionResult \<Rightarrow> bool" where
  "truthy result = True"

definition suggestQueryResults ::
  "database \<Rightarrow> string \<Rightarrow> string \<Rightarrow> string list \<Rightarrow> string \<Rightarrow> pyval" where
  "suggestQueryResults run_query PRODUCT_TABLE BRAND_TABLE all_style_terms query =
     (let result = suggestsQuery run_query PRODUCT_TABLE BRAND_TABLE all_style_terms query
      in if truthy result
         then PyDict [(''product_name'', product_name result),
                      (''brand_name'', brand_name result),
                      (''styles'', SuggestionResult.styles result)]
         else PyBool False)"

section \<open>The fuzzy helper\<close>

text \<open>
  Modelled from the spec: the helper \<open>fuzzyMatch\<close> of \<open>utils/helpers.py\<close> is not among
  the sources. In the spec (section 2, SimilarityMatcher, and section 4.1, step c) it
  computes a normalized similarity score between the phrase and the vocabulary and gives
  the top result when that result clears the threshold, that is, when its score is at
  least the threshold. The score is a parameter; \<open>top_match\<close> is the first entry of the
  vocabulary with the greatest score.
\<close>

fun top_match :: "(string \<Rightarrow> string \<Rightarrow> rat) \<Rightarrow> string \<Rightarrow> string list \<Rightarrow> string option" where
  "top_match similarity phrase [] = None"
| "top_match similarity phrase (v # vs) =
     (case top_match similarity phrase vs of
        None \<Rightarrow> Some v
      | Some b \<Rightarrow> if similarity phrase b > similarity phrase v then Some b else Some v)"

definition fuzzyMatch :: "(string \<Rightarrow> string \<Rightarrow> rat) \<Rightarrow> fuzzy_helper" where
  "fuzzyMatch similarity phrase vocabulary threshold =
     (case top_match similarity phrase vocabulary of
        None \<Rightarrow> None
      | Some best \<Rightarrow> if similarity phrase best \<ge> threshold then Some best else None)"

section \<open>Invariants of the scan\<close>

text \<open>
  No two windows of a sequence of windows share an index.
\<close>

definition windows_disjoint :: "nat list list \<Rightarrow> bool" where
  "windows_disjoint ws =
     (\<forall>a b. a < b \<and> b < length ws \<longrightarrow> set (ws ! a) \<inter> set (ws ! b) = {})"

text \<open>
  What holds of the state before and after every run of the loop body: the detected
  features are distinct values of \<open>synonym_to_feature\<close>, they are the features of the
  accepted matches in order, the consumed set is the union of the accepted windows, and
  the accepted windows are disjoint.
\<close>

definition scan_inv :: "FeatureExtractor \<Rightarrow> scan_state \<Rightarrow> bool" where
  "scan_inv self st =
     (distinct (detected_features st)
      \<and> set (detected_features st) \<subseteq> ran (synonym_to_feature self)
      \<and> map snd (accepted st) = detected_features st
      \<and> consumed_indices st = (\<Union>w \<in> set (accepted st). set (fst w))
      \<and> windows_disjoint (map fst (accepted st)))"

text \<open>
  Every accepted window is a window of the token sequence: \<open>window_size\<close> consecutive
  indices, with \<open>window_size\<close> one of 1 to 4, inside the sequence.
\<close>

definition windows_in_range :: "string list \<Rightarrow> scan_state \<Rightarrow> bool" where
  "windows_in_range words st =
     (\<forall>w \<in> set (accepted st). \<exists>i n. fst w = [i ..< i + n] \<and> n \<in> {1, 2, 3, 4} \<and> i + n \<le> length words)"

section \<open>Example inputs\<close>

definition example_categories :: "(string \<times> string list) list" where
  "example_categories =
     [(''leather'', []), (''l shape'', []), (''c shape'', []), (''metal legs'', []),
      (''wooden legs'', []), (''storage'', [])]"

definition example_lexicon :: FeatureExtractor where
  "example_lexicon =
     buildFeatureMappings example_categories [(''leather'', ''Material''), (''l shape'', ''Shape'')]"

text \<open>A fuzzy helper that finds no match.\<close>

definition no_fuzzy :: fuzzy_helper where
  "no_fuzzy phrase vocabulary threshold = None"

text \<open>
  A similarity score that rates each of two misspelt phrases at \<open>0.94\<close> against the
  entry it misspells, and everything else at \<open>0.1\<close>.
\<close>

definition example_similarity :: "string \<Rightarrow> string \<Rightarrow> rat" where
  "example_similarity phrase entry =
     (if (phrase, entry) \<in> set [(''metal lges'', ''metal legs''), (''wooden lges'', ''wooden legs'')]
      then 94 / 100 else 1 / 10)"

text \<open>
  A regular-expression engine for patterns that are literal words: the pattern matches
  where the word occurs, in any case. One contextual pattern maps the word \<open>drawers\<close> to
  the feature \<open>storage\<close>.
\<close>

definition literal_search :: "string \<Rightarrow> string \<Rightarrow> bool" where
  "literal_search pattern text = str_in (lower pattern) (lower text)"

definition example_patterns :: "(string \<times> string) list" where
  "example_patterns = [(''drawers'', ''Storage'')]"

text \<open>A product-type classifier that finds nothing and corrects nothing.\<close>

definition example_classifier :: "string \<Rightarrow> error + string list \<times> rat list \<times> string" where
  "example_classifier query = Inr ([''Unknown''], [], query)"

text \<open>
  A database with two products and one brand row without an id, and one that fails.
\<close>

definition example_database :: database where
  "example_database table text =
     (if table = ''Product''
      then Inr [(PyInt 7, PyStr ''Modena sofa''), (PyNone, PyStr ''Modern chair'')]
      else Inr [])"

definition failing_database :: database where
  "failing_database table text = Inl (CollaboratorError ''connection refused'')"

definition example_styles :: "(string \<times> string list) list" where
  "example_styles = [(''Modern'', [''contemporary'']), (''mid-century modern'', []), (''Rustic'', [])]"

text \<open>A collaborator that raises on every query.\<close>

definition failing_collaborator :: "string \<Rightarrow> error + 'a" where
  "failing_collaborator query = Inl (CollaboratorError ''model not loaded'')"

text \<open>
  A classification extractor and a price extractor that find nothing, and a
  \<open>re.finditer\<close> for an empty list of fuzzy patterns.
\<close>

definition example_classification :: "string \<Rightarrow> error + pyval" where
  "example_classification query = Inr (PyDict [])"

definition example_price :: "string \<Rightarrow> error + pyval" where
  "example_price query = Inr PyNone"

definition no_finditer :: "string \<Rightarrow> string \<Rightarrow> string list" where
  "no_finditer pattern text = []"


section \<open>Lemmas about the scan\<close>

lemma foldl_preserves:
  assumes "P s" and "\<And>s x. P s \<Longrightarrow> P (f s x)"
  shows "P (foldl f s xs)"
  using assms by (induction xs arbitrary: s) auto

lemma matchPhrase_ran:
  "matchPhrase self fm p = Some f \<Longrightarrow> f \<in> ran (synonym_to_feature self)"
  by (auto simp: matchPhrase_def ran_def split: if_splits option.splits)

lemma window_step_cases:
  "window_step self fm words n st i = st \<or>
   (\<exists>f. f \<noteq> [] \<and> matchPhrase self fm (join '' '' (slice words i (i + n))) = Some f
        \<and> hasContextualMatch (join '' '' (slice words i (i + n))) words i
        \<and> f \<notin> set (detected_features st)
        \<and> set [i ..< i + n] \<inter> consumed_indices st = {}
        \<and> window_step self fm words n st i =
            st\<lparr> detected_features := detected_features st @ [f],
                consumed_indices := consumed_indices st \<union> set [i ..< i + n],
                accepted := accepted st @ [([i ..< i + n], f)] \<rparr>)"
  by (auto simp: window_step_def Let_def list_ex_iff split: option.splits)

lemma windows_disjoint_snoc:
  assumes "windows_disjoint ws" and "\<forall>v \<in> set ws. set v \<inter> set w = {}"
  shows "windows_disjoint (ws @ [w])"
  unfolding windows_disjoint_def
proof (intro allI impI)
  fix a b assume ab: "a < b \<and> b < length (ws @ [w])"
  show "set ((ws @ [w]) ! a) \<inter> set ((ws @ [w]) ! b) = {}"
  proof (cases "b < length ws")
    case True
    with ab assms(1) show ?thesis by (simp add: windows_disjoint_def nth_append)
  next
    case False
    with ab have b: "b = length ws" and a: "a < length ws" by auto
    from a have "ws ! a \<in> set ws" by simp
    with assms(2) have "set (ws ! a) \<inter> set w = {}" by blast
    with a b show ?thesis by (simp add: nth_append)
  qed
qed

lemma scan_inv_accept:
  assumes inv: "scan_inv self st"
    and r: "f \<in> ran (synonym_to_feature self)"
    and new: "f \<notin> set (detected_features st)"
    and free: "set w \<inter> consumed_indices st = {}"
  shows "scan_inv self
           (st\<lparr> detected_features := detected_features st @ [f],
               consumed_indices := consumed_indices st \<union> set w,
               accepted := accepted st @ [(w, f)] \<rparr>)"
proof -
  from inv have 1: "distinct (detected_features st)"
    and 2: "set (detected_features st) \<subseteq> ran (synonym_to_feature self)"
    and 3: "map snd (accepted st) = detected_features st"
    and 4: "consumed_indices st = (\<Union>v \<in> set (accepted st). set (fst v))"
    and 5: "windows_disjoint (map fst (accepted st))"
    by (simp_all add: scan_inv_def)
  have d: "\<forall>v \<in> set (map fst (accepted st)). set v \<inter> set w = {}"
  proof
    fix v assume "v \<in> set (map fst (accepted st))"
    then obtain e where "e \<in> set (accepted st)" and "v = fst e" by auto
    with 4 have "set v \<subseteq> consumed_indices st" by blast
    with free show "set v \<inter> set w = {}" by blast
  qed
  have e5: "windows_disjoint (map fst (accepted st) @ [w])"
    using 5 d by (rule windows_disjoint_snoc)
  have e4: "consumed_indices st \<union> set w = (\<Union>v \<in> set (accepted st @ [(w, f)]). set (fst v))"
    using 4 by auto
  show ?thesis
    unfolding scan_inv_def using 1 2 3 e4 e5 r new by simp
qed

lemma window_step_inv:
  assumes "scan_inv self st"
  shows "scan_inv self (window_step self fm words n st i)"
proof -
  from window_step_cases [of self fm words n st i] show ?thesis
  proof (elim disjE exE conjE)
    assume "window_step self fm words n st i = st"
    with assms show ?thesis by simp
  next
    fix f
    assume m: "matchPhrase self fm (join '' '' (slice words i (i + n))) = Some f"
      and new: "f \<notin> set (detected_features st)"
      and free: "set [i ..< i + n] \<inter> consumed_indices st = {}"
      and eq: "window_step self fm words n st i =
            st\<lparr> detected_features := detected_features st @ [f],
                consumed_indices := consumed_indices st \<union> set [i ..< i + n],
                accepted := accepted st @ [([i ..< i + n], f)] \<rparr>"
    have r: "f \<in> ran (synonym_to_feature self)" using m by (rule matchPhrase_ran)
    show ?thesis
      unfolding eq using assms r new free by (rule scan_inv_accept)
  qed
qed

lemma scan_inv_init:
  "scan_inv self \<lparr> consumed_indices = {}, detected_features = [], accepted = [] \<rparr>"
  by (simp add: scan_inv_def windows_disjoint_def)

lemma scan_window_size_inv:
  "scan_inv self st \<Longrightarrow> scan_inv self (scan_window_size self fm words st n)"
  unfolding scan_window_size_def
  by (rule foldl_preserves [where P = "scan_inv self"]) (simp_all add: window_step_inv)

lemma scan_inv_scan: "scan_inv self (scan self fm words)"
  unfolding scan_def
  by (rule foldl_preserves [where P = "scan_inv self"])
     (simp_all add: scan_inv_init scan_window_size_inv)

lemma foldl_preserves_set:
  assumes "P s" and "\<And>s x. x \<in> set xs \<Longrightarrow> P s \<Longrightarrow> P (f s x)"
  shows "P (foldl f s xs)"
  using assms by (induction xs arbitrary: s) auto

lemma window_step_consumed_mono:
  "consumed_indices st \<subseteq> consumed_indices (window_step self fm words n st i)"
  using window_step_cases [of self fm words n st i] by auto

lemma window_step_skip:
  "set [i ..< i + n] \<inter> consumed_indices st \<noteq> {} \<Longrightarrow> window_step self fm words n st i = st"
  using window_step_cases [of self fm words n st i] by auto

lemma window_step_in_range:
  assumes "windows_in_range words st" and "n \<in> {1, 2, 3, 4}" and "i + n \<le> length words"
  shows "windows_in_range words (window_step self fm words n st i)"
  using window_step_cases [of self fm words n st i] assms
  unfolding windows_in_range_def by (elim disjE exE conjE) auto

lemma scan_window_size_in_range:
  assumes "windows_in_range words st" and "n \<in> {1, 2, 3, 4}"
  shows "windows_in_range words (scan_window_size self fm words st n)"
  unfolding scan_window_size_def
proof (rule foldl_preserves_set [where P = "windows_in_range words"])
  show "windows_in_range words st" by (rule assms(1))
next
  fix s x assume "x \<in> set [0 ..< length words + 1 - n]" and "windows_in_range words s"
  then show "windows_in_range words (window_step self fm words n s x)"
    using assms(2) by (intro window_step_in_range) auto
qed

lemma scan_in_range: "windows_in_range words (scan self fm words)"
  unfolding scan_def
proof (rule foldl_preserves_set [where P = "windows_in_range words"])
  show "windows_in_range words \<lparr> consumed_indices = {}, detected_features = [], accepted = [] \<rparr>"
    by (simp add: windows_in_range_def)
next
  fix s x assume "x \<in> set [4, 3, 2, 1::nat]" and "windows_in_range words s"
  then show "windows_in_range words (scan_window_size self fm words s x)"
    by (intro scan_window_size_in_range) auto
qed
lemma lower_char_space: "isspace c \<Longrightarrow> lower_char c = c"
  unfolding isspace_def by (elim disjE | simp add: lower_char_def)+

lemma split_from_whitespace:
  "list_all isspace s \<Longrightarrow> split_from [] (lower s) = []"
  by (induction s) (simp_all add: lower_def lower_char_space)

lemma scan_no_words:
  "scan self fm [] = \<lparr> consumed_indices = {}, detected_features = [], accepted = [] \<rparr>"
  by (simp add: scan_def scan_window_size_def)

lemma disambiguate_subset: "set (disambiguate t d) \<subseteq> set d"
  by (auto simp: disambiguate_def)

lemma disambiguate_distinct: "distinct d \<Longrightarrow> distinct (disambiguate t d)"
  by (simp add: disambiguate_def)

lemma buildFeatureMappings_item_inv:
  assumes "ran (synonym_to_feature fe) \<subseteq> dom (feature_to_category fe) \<inter> K" and "fst item \<in> K"
  shows "ran (synonym_to_feature (buildFeatureMappings_item CM fe item))
           \<subseteq> dom (feature_to_category (buildFeatureMappings_item CM fe item)) \<inter> K"
  using assms
  by (cases item) (auto simp: buildFeatureMappings_item_def ran_def split: if_splits)

lemma buildFeatureMappings_ran:
  "ran (synonym_to_feature (buildFeatureMappings FC CM))
     \<subseteq> dom (feature_to_category (buildFeatureMappings FC CM)) \<inter> fst ` set FC"
  unfolding buildFeatureMappings_def
proof (rule foldl_preserves_set
        [where P = "\<lambda>fe. ran (synonym_to_feature fe) \<subseteq> dom (feature_to_category fe) \<inter> fst ` set FC"])
  show "ran (synonym_to_feature
              \<lparr> all_synonyms = [], synonym_to_feature = Map.empty, feature_to_category = Map.empty \<rparr>)
          \<subseteq> dom (feature_to_category
              \<lparr> all_synonyms = [], synonym_to_feature = Map.empty, feature_to_category = Map.empty \<rparr>)
             \<inter> fst ` set FC"
    by simp
next
  fix fe :: FeatureExtractor and item
  assume "item \<in> set FC"
    and "ran (synonym_to_feature fe) \<subseteq> dom (feature_to_category fe) \<inter> fst ` set FC"
  then show "ran (synonym_to_feature (buildFeatureMappings_item CM fe item))
           \<subseteq> dom (feature_to_category (buildFeatureMappings_item CM fe item)) \<inter> fst ` set FC"
    by (intro buildFeatureMappings_item_inv) simp_all
qed

lemma extractFeatures_subset:
  "set (extractFeatures self fm s) \<subseteq> ran (synonym_to_feature self)"
  using scan_inv_scan [of self fm "split (lower s)"]
    disambiguate_subset [of "lower s" "getCategoriesFromText self fm (lower s)"]
  by (auto simp: extractFeatures_def getCategoriesFromText_def scan_inv_def Let_def)

lemma extractFeatures_distinct: "distinct (extractFeatures self fm s)"
  using scan_inv_scan [of self fm "split (lower s)"]
  by (simp add: extractFeatures_def getCategoriesFromText_def scan_inv_def disambiguate_distinct Let_def)






















lemma matchPhrase_fuzzy:
  assumes "synonym_to_feature self phrase = None" and "length phrase > 6"
  shows "matchPhrase self fm phrase =
           (case fm phrase (all_synonyms self) (fuzzy_threshold phrase) of
              None \<Rightarrow> None
            | Some m \<Rightarrow> synonym_to_feature self m)"
  using assms by (simp add: matchPhrase_def)

lemma fuzzyMatch_at_94:
  assumes "top_match similarity phrase vocabulary = Some best"
    and "similarity phrase best = 94 / 100"
  shows "fuzzyMatch similarity phrase vocabulary (96 / 100) = None"
    and "fuzzyMatch similarity phrase vocabulary (93 / 100) = Some best"
  using assms by (simp_all add: fuzzyMatch_def)

lemma disambiguate_cases:
  "disambiguate t d = d \<or> disambiguate t d = filter (\<lambda>f. f \<noteq> ''c shape'') d
     \<or> disambiguate t d = filter (\<lambda>f. f \<noteq> ''l shape'') d"
  by (simp add: disambiguate_def)

lemma ParserResult_init_missing:
  "map_of kwargs ''styles'' = None \<Longrightarrow> ParserResult_init kwargs = Inl TypeError"
  by (simp add: ParserResult_init_def ParserResult_fields_def)

lemma structureQuery_kwargs_no_styles:
  "map_of [(''product_type'', a), (''features'', b), (''price_range'', c), (''location'', d),
           (''confidence_score'', e), (''classification_summary'', f), (''extras'', g),
           (''original_query'', h), (''suggested_query'', i)] ''styles'' = None"
  by simp

text \<open>
  \<open>structureQuery\<close> never returns a \<open>ParserResult\<close>: whatever the query and the
  collaborators, the call ends in an exception (of a collaborator, the \<open>ValueError\<close> of
  the unpacking in line 51, or the \<open>TypeError\<close> of the \<open>ParserResult\<close> call that passes
  no \<open>styles\<close>).
\<close>

lemma structureQuery_always_raises:
  "\<exists>e. structureQuery classify fe fm classification price query = Inl e"
  unfolding structureQuery_def
  by (simp only: ParserResult_init_missing [OF structureQuery_kwargs_no_styles] split: sum.split prod.split)
     blast

section \<open>The claims\<close>

text \<open>
  C4. During one scan the consumed-index set only grows; a window that overlaps a
  consumed index leaves the state unchanged (it is skipped); and so the windows of the
  accepted matches are pairwise disjoint. Each of them is a window of the token sequence
  of size 1 to 4, and their features, in order, are the list the scan returns.
\<close>

theorem scan_windows_never_overlap:
  "consumed_indices st \<subseteq> consumed_indices (window_step self fm words n st i)
   \<and> (set [i ..< i + n] \<inter> consumed_indices st \<noteq> {} \<longrightarrow> window_step self fm words n st i = st)
   \<and> windows_disjoint (map fst (accepted (scan self fm words)))
   \<and> windows_in_range words (scan self fm words)
   \<and> map snd (accepted (scan self fm words)) = detected_features (scan self fm words)"
  using scan_inv_scan [of self fm words] scan_in_range [of words self fm]
    window_step_consumed_mono [of st self fm words n i] window_step_skip [of i n st self fm words]
  by (simp add: scan_inv_def)

theorem scan_windows_never_overlap_witness:
  "set [0 ..< 0 + 2] \<inter>
      consumed_indices (scan example_lexicon no_fuzzy (split ''l shape leather sofa with metal legs'')) \<noteq> {}
   \<and> window_step example_lexicon no_fuzzy (split ''l shape leather sofa with metal legs'') 2
        (scan example_lexicon no_fuzzy (split ''l shape leather sofa with metal legs'')) 0
      = scan example_lexicon no_fuzzy (split ''l shape leather sofa with metal legs'')
   \<and> accepted (scan example_lexicon no_fuzzy (split ''l shape leather sofa with metal legs''))
      = [([0, 1], ''l shape''), ([5, 6], ''metal legs''), ([2], ''leather'')]
   \<and> windows_disjoint [[0, 1], [5, 6], [2]]"
proof -
  let ?w = "split ''l shape leather sofa with metal legs''"
  let ?s = "scan example_lexicon no_fuzzy ?w"
  have h: "set [0 ..< 0 + 2] \<inter> consumed_indices ?s \<noteq> {}" by code_simp
  have a: "accepted ?s = [([0, 1], ''l shape''), ([5, 6], ''metal legs''), ([2], ''leather'')]"
    by code_simp
  from scan_windows_never_overlap [of ?s example_lexicon no_fuzzy ?w 2 0] h
  have "window_step example_lexicon no_fuzzy ?w 2 ?s 0 = ?s"
    and "windows_disjoint (map fst (accepted ?s))" by blast+
  with h a show ?thesis by simp
qed

text \<open>
  C8. On empty or whitespace-only text \<open>extractFeatures\<close> returns the empty list; the
  function has no failing branch, whatever the lexicon and the fuzzy helper.
\<close>

theorem extractFeatures_whitespace:
  "list_all isspace s \<Longrightarrow> extractFeatures self fm s = []"
  by (simp add: extractFeatures_def getCategoriesFromText_def split_def split_from_whitespace
        scan_no_words disambiguate_def Let_def)

theorem extractFeatures_whitespace_witness:
  "list_all isspace [] \<and> extractFeatures example_lexicon no_fuzzy [] = []
   \<and> list_all isspace [CHR '' '', CHR 0x09, CHR '' '', CHR 0x0A]
   \<and> extractFeatures example_lexicon no_fuzzy [CHR '' '', CHR 0x09, CHR '' '', CHR 0x0A] = []"
proof -
  have a: "list_all isspace []" by simp
  have b: "list_all isspace [CHR '' '', CHR 0x09, CHR '' '', CHR 0x0A]"
    by (simp add: isspace_def)
  show ?thesis
    by (intro conjI a b extractFeatures_whitespace [OF a] extractFeatures_whitespace [OF b])
qed

text \<open>
  C9. With the mappings built from \<open>FURNITURE_CATEGORY\<close>, the list \<open>extractFeatures\<close>
  returns has no duplicates, and each of its elements is a value of \<open>synonym_to_feature\<close>,
  hence a key of \<open>FURNITURE_CATEGORY\<close> with exactly one category in
  \<open>feature_to_category\<close>.
\<close>

theorem extractFeatures_canonical:
  "distinct (extractFeatures (buildFeatureMappings FC CM) fm s)
   \<and> set (extractFeatures (buildFeatureMappings FC CM) fm s)
        \<subseteq> ran (synonym_to_feature (buildFeatureMappings FC CM))
   \<and> set (extractFeatures (buildFeatureMappings FC CM) fm s) \<subseteq> fst ` set FC
   \<and> (\<forall>f \<in> set (extractFeatures (buildFeatureMappings FC CM) fm s).
         \<exists>!category. feature_to_category (buildFeatureMappings FC CM) f = Some category)"
proof -
  let ?fe = "buildFeatureMappings FC CM"
  have sub: "set (extractFeatures ?fe fm s) \<subseteq> ran (synonym_to_feature ?fe)"
    by (rule extractFeatures_subset)
  have r: "ran (synonym_to_feature ?fe) \<subseteq> dom (feature_to_category ?fe) \<inter> fst ` set FC"
    by (rule buildFeatureMappings_ran)
  have cat: "\<exists>!category. feature_to_category ?fe f = Some category"
    if "f \<in> set (extractFeatures ?fe fm s)" for f
  proof -
    from that sub r have "f \<in> dom (feature_to_category ?fe)" by blast
    then show ?thesis by auto
  qed
  from sub r have keys: "set (extractFeatures ?fe fm s) \<subseteq> fst ` set FC" by blast
  show ?thesis
    using extractFeatures_distinct [of ?fe fm s] sub keys cat by blast
qed

theorem extractFeatures_canonical_witness:
  "extractFeatures (buildFeatureMappings example_categories [(''leather'', ''Material'')]) no_fuzzy
       ''L shape Leather sofa with metal legs'' = [''l shape'', ''metal legs'', ''leather'']
   \<and> feature_to_category (buildFeatureMappings example_categories [(''leather'', ''Material'')]) ''leather''
       = Some ''Material''
   \<and> feature_to_category (buildFeatureMappings example_categories [(''leather'', ''Material'')]) ''l shape''
       = Some ''Other''
   \<and> distinct [''l shape'', ''metal legs'', ''leather'']"
proof -
  let ?fe = "buildFeatureMappings example_categories [(''leather'', ''Material'')]"
  have e: "extractFeatures ?fe no_fuzzy ''L shape Leather sofa with metal legs''
             = [''l shape'', ''metal legs'', ''leather'']"
    by code_simp
  have c: "feature_to_category ?fe ''leather'' = Some ''Material''"
    "feature_to_category ?fe ''l shape'' = Some ''Other''"
    by code_simp+
  from extractFeatures_canonical [of example_categories "[(''leather'', ''Material'')]" no_fuzzy
         "''L shape Leather sofa with metal legs''"]
  have "distinct (extractFeatures ?fe no_fuzzy ''L shape Leather sofa with metal legs'')" by blast
  with e c show ?thesis by simp
qed

text \<open>
  C3. The disambiguation step of \<open>extractFeatures\<close>, applied to a detected list that
  holds both \<open>l shape\<close> and \<open>c shape\<close>: when the lowercased text contains \<open>l\<close> and not
  \<open>c\<close>, every \<open>c shape\<close> is removed and \<open>l shape\<close> stays; when it contains \<open>c\<close> and not
  \<open>l\<close>, every \<open>l shape\<close> is removed and \<open>c shape\<close> stays; when it contains both or
  neither, the list is returned as it is. \<open>extractFeatures\<close> applies this step to the
  lowercased text and the list the scan returned.
\<close>

theorem disambiguate_l_c_shape:
  "''l shape'' \<in> set detected \<Longrightarrow> ''c shape'' \<in> set detected \<Longrightarrow>
     (str_in ''l'' text_lower \<and> \<not> str_in ''c'' text_lower \<longrightarrow>
        disambiguate text_lower detected = filter (\<lambda>f. f \<noteq> ''c shape'') detected
        \<and> ''c shape'' \<notin> set (disambiguate text_lower detected)
        \<and> ''l shape'' \<in> set (disambiguate text_lower detected))
   \<and> (str_in ''c'' text_lower \<and> \<not> str_in ''l'' text_lower \<longrightarrow>
        disambiguate text_lower detected = filter (\<lambda>f. f \<noteq> ''l shape'') detected
        \<and> ''l shape'' \<notin> set (disambiguate text_lower detected)
        \<and> ''c shape'' \<in> set (disambiguate text_lower detected))
   \<and> ((str_in ''l'' text_lower \<longleftrightarrow> str_in ''c'' text_lower) \<longrightarrow>
        disambiguate text_lower detected = detected)
   \<and> extractFeatures self fm s = disambiguate (lower s) (getCategoriesFromText self fm (lower s))"
proof -
  assume l: "''l shape'' \<in> set detected" and c: "''c shape'' \<in> set detected"
  have "str_in ''l shape'' ''l shape''" and "str_in ''c shape'' ''c shape''" by simp_all
  with l c have g: "list_ex (\<lambda>f. str_in ''l shape'' f) detected" "list_ex (\<lambda>f. str_in ''c shape'' f) detected"
    unfolding list_ex_iff by blast+
  have e: "extractFeatures self fm s = disambiguate (lower s) (getCategoriesFromText self fm (lower s))"
    by (simp add: extractFeatures_def Let_def)
  show ?thesis using l c g e by (auto simp: disambiguate_def)
qed

theorem disambiguate_l_c_shape_witness:
  "''l shape'' \<in> set [''l shape'', ''leather'', ''c shape'']
   \<and> ''c shape'' \<in> set [''l shape'', ''leather'', ''c shape'']
   \<and> str_in ''l'' ''l sofa'' \<and> \<not> str_in ''c'' ''l sofa''
   \<and> disambiguate ''l sofa'' [''l shape'', ''leather'', ''c shape''] = [''l shape'', ''leather'']
   \<and> str_in ''c'' ''c sofa'' \<and> \<not> str_in ''l'' ''c sofa''
   \<and> disambiguate ''c sofa'' [''l shape'', ''leather'', ''c shape''] = [''leather'', ''c shape'']
   \<and> str_in ''l'' ''l shape c shape sofa'' \<and> str_in ''c'' ''l shape c shape sofa''
   \<and> disambiguate ''l shape c shape sofa'' [''l shape'', ''leather'', ''c shape'']
        = [''l shape'', ''leather'', ''c shape'']
   \<and> getCategoriesFromText example_lexicon no_fuzzy (lower ''L shape C shape sofa'')
        = [''l shape'', ''c shape'']
   \<and> extractFeatures example_lexicon no_fuzzy ''L shape C shape sofa'' = [''l shape'', ''c shape'']"
proof -
  have p: "getCategoriesFromText example_lexicon no_fuzzy (lower ''L shape C shape sofa'')
        = [''l shape'', ''c shape'']"
    "extractFeatures example_lexicon no_fuzzy ''L shape C shape sofa'' = [''l shape'', ''c shape'']"
    by code_simp+
  let ?d = "[''l shape'', ''leather'', ''c shape'']"
  have m: "''l shape'' \<in> set ?d" "''c shape'' \<in> set ?d" by simp_all
  have s: "str_in ''l'' ''l sofa''" "\<not> str_in ''c'' ''l sofa''"
    "str_in ''c'' ''c sofa''" "\<not> str_in ''l'' ''c sofa''"
    "str_in ''l'' ''l shape c shape sofa''" "str_in ''c'' ''l shape c shape sofa''"
    by simp_all
  from disambiguate_l_c_shape [OF m, of "''l sofa''"] s
  have 1: "disambiguate ''l sofa'' ?d = filter (\<lambda>f. f \<noteq> ''c shape'') ?d" by blast
  from disambiguate_l_c_shape [OF m, of "''c sofa''"] s
  have 2: "disambiguate ''c sofa'' ?d = filter (\<lambda>f. f \<noteq> ''l shape'') ?d" by blast
  from disambiguate_l_c_shape [OF m, of "''l shape c shape sofa''"] s
  have 3: "disambiguate ''l shape c shape sofa'' ?d = ?d" by blast
  show ?thesis using m s 1 2 3 p by simp
qed



text \<open>
  C6. For a window phrase with no exact lexicon match: when the phrase has at most 6
  characters no fuzzy match is attempted (the phrase gets no feature, whatever the
  helper); when it has more than 6, the helper is called with threshold \<open>0.96\<close> if the
  phrase contains \<open>detail\<close> or \<open>metal\<close> and \<open>0.93\<close> otherwise, and its answer decides.
  With the helper of the spec, a phrase whose top result scores \<open>0.94\<close> is rejected when
  it contains \<open>detail\<close> or \<open>metal\<close> and gets the feature of that result otherwise.
\<close>

theorem fuzzy_gate_and_threshold:
  "synonym_to_feature self phrase = None \<Longrightarrow>
     (length phrase \<le> 6 \<longrightarrow> matchPhrase self fm phrase = None)
     \<and> (length phrase > 6 \<longrightarrow>
          matchPhrase self fm phrase =
            (case fm phrase (all_synonyms self)
                    (if str_in ''detail'' phrase \<or> str_in ''metal'' phrase
                     then 96 / 100 else 93 / 100) of
               None \<Rightarrow> None
             | Some m \<Rightarrow> synonym_to_feature self m))
     \<and> (length phrase > 6 \<and> top_match similarity phrase (all_synonyms self) = Some best
          \<and> similarity phrase best = 94 / 100 \<longrightarrow>
          matchPhrase self (fuzzyMatch similarity) phrase =
            (if str_in ''detail'' phrase \<or> str_in ''metal'' phrase
             then None else synonym_to_feature self best))"
proof -
  assume none: "synonym_to_feature self phrase = None"
  have 1: "length phrase \<le> 6 \<longrightarrow> matchPhrase self fm phrase = None"
    using none by (simp add: matchPhrase_def)
  have 2: "length phrase > 6 \<longrightarrow>
          matchPhrase self fm phrase =
            (case fm phrase (all_synonyms self)
                    (if str_in ''detail'' phrase \<or> str_in ''metal'' phrase
                     then 96 / 100 else 93 / 100) of
               None \<Rightarrow> None
             | Some m \<Rightarrow> synonym_to_feature self m)"
    using matchPhrase_fuzzy [OF none, of fm] unfolding fuzzy_threshold_def by (rule impI)
  have 3: "length phrase > 6 \<and> top_match similarity phrase (all_synonyms self) = Some best
          \<and> similarity phrase best = 94 / 100 \<longrightarrow>
          matchPhrase self (fuzzyMatch similarity) phrase =
            (if str_in ''detail'' phrase \<or> str_in ''metal'' phrase
             then None else synonym_to_feature self best)"
  proof (rule impI, elim conjE)
    assume len: "length phrase > 6"
      and top: "top_match similarity phrase (all_synonyms self) = Some best"
      and score: "similarity phrase best = 94 / 100"
    show "matchPhrase self (fuzzyMatch similarity) phrase =
            (if str_in ''detail'' phrase \<or> str_in ''metal'' phrase
             then None else synonym_to_feature self best)"
      unfolding matchPhrase_fuzzy [OF none len] fuzzy_threshold_def
      using fuzzyMatch_at_94 [OF top score] by simp
  qed
  show ?thesis by (intro conjI 1 2 3)
qed

theorem fuzzy_gate_and_threshold_witness:
  "synonym_to_feature example_lexicon ''metal lges'' = None
   \<and> synonym_to_feature example_lexicon ''wooden lges'' = None
   \<and> synonym_to_feature example_lexicon ''lether'' = None
   \<and> length ''lether'' \<le> 6 \<and> length ''metal lges'' > 6 \<and> length ''wooden lges'' > 6
   \<and> top_match example_similarity ''metal lges'' (all_synonyms example_lexicon) = Some ''metal legs''
   \<and> top_match example_similarity ''wooden lges'' (all_synonyms example_lexicon) = Some ''wooden legs''
   \<and> example_similarity ''metal lges'' ''metal legs'' = 94 / 100
   \<and> example_similarity ''wooden lges'' ''wooden legs'' = 94 / 100
   \<and> matchPhrase example_lexicon (fuzzyMatch example_similarity) ''lether'' = None
   \<and> matchPhrase example_lexicon (fuzzyMatch example_similarity) ''metal lges'' = None
   \<and> matchPhrase example_lexicon (fuzzyMatch example_similarity) ''wooden lges'' = Some ''wooden legs''"
proof -
  have n: "synonym_to_feature example_lexicon ''metal lges'' = None"
    "synonym_to_feature example_lexicon ''wooden lges'' = None"
    "synonym_to_feature example_lexicon ''lether'' = None"
    by code_simp+
  have l: "length ''lether'' \<le> 6" "length ''metal lges'' > 6" "length ''wooden lges'' > 6"
    by simp_all
  have t: "top_match example_similarity ''metal lges'' (all_synonyms example_lexicon) = Some ''metal legs''"
    "top_match example_similarity ''wooden lges'' (all_synonyms example_lexicon) = Some ''wooden legs''"
    by code_simp+
  have s: "example_similarity ''metal lges'' ''metal legs'' = 94 / 100"
    "example_similarity ''wooden lges'' ''wooden legs'' = 94 / 100"
    by code_simp+
  have f: "str_in ''metal'' ''metal lges''" "\<not> str_in ''metal'' ''wooden lges''"
    "\<not> str_in ''detail'' ''wooden lges''" "synonym_to_feature example_lexicon ''wooden legs'' = Some ''wooden legs''"
    by code_simp+
  note a = fuzzy_gate_and_threshold [OF n(3), of "fuzzyMatch example_similarity", THEN conjunct1]
  note b = fuzzy_gate_and_threshold [OF n(1), of no_fuzzy example_similarity "''metal legs''",
             THEN conjunct2, THEN conjunct2]
  note c = fuzzy_gate_and_threshold [OF n(2), of no_fuzzy example_similarity "''wooden legs''",
             THEN conjunct2, THEN conjunct2]
  have 1: "matchPhrase example_lexicon (fuzzyMatch example_similarity) ''lether'' = None"
    using a l(1) by (rule mp)
  have "matchPhrase example_lexicon (fuzzyMatch example_similarity) ''metal lges'' =
          (if str_in ''detail'' ''metal lges'' \<or> str_in ''metal'' ''metal lges''
           then None else synonym_to_feature example_lexicon ''metal legs'')"
    using b conjI [OF l(2) conjI [OF t(1) s(1)]] by (rule mp)
  then have 2: "matchPhrase example_lexicon (fuzzyMatch example_similarity) ''metal lges'' = None"
    by (simp only: f if_True simp_thms)
  have "matchPhrase example_lexicon (fuzzyMatch example_similarity) ''wooden lges'' =
          (if str_in ''detail'' ''wooden lges'' \<or> str_in ''metal'' ''wooden lges''
           then None else synonym_to_feature example_lexicon ''wooden legs'')"
    using c conjI [OF l(3) conjI [OF t(2) s(2)]] by (rule mp)
  then have 3: "matchPhrase example_lexicon (fuzzyMatch example_similarity) ''wooden lges''
                  = Some ''wooden legs''"
    by (simp only: f if_False simp_thms)
  show ?thesis by (intro conjI n l t s 1 2 3)
qed

text \<open>
  C2, as the code has it. The feature list of the pipeline is the output of the windowed
  scan on the lowercased text followed by the disambiguation: that output itself, or
  that output without \<open>c shape\<close>, or without \<open>l shape\<close>. The contextual pattern matcher
  is not run by \<open>extractFeatures\<close>, so every feature of the pipeline is a feature the
  scan detected.
\<close>

theorem extractFeatures_scan_then_disambiguation:
  "(extractFeatures self fm s = getCategoriesFromText self fm (lower s)
    \<or> extractFeatures self fm s
         = filter (\<lambda>f. f \<noteq> ''c shape'') (getCategoriesFromText self fm (lower s))
    \<or> extractFeatures self fm s
         = filter (\<lambda>f. f \<noteq> ''l shape'') (getCategoriesFromText self fm (lower s)))
   \<and> set (extractFeatures self fm s) \<subseteq> set (getCategoriesFromText self fm (lower s))"
  unfolding extractFeatures_def Let_def
  by (rule conjI) (rule disambiguate_cases, rule disambiguate_subset)

theorem extractFeatures_scan_then_disambiguation_witness:
  "getCategoriesFromText example_lexicon no_fuzzy (lower ''Bed with drawers'') = []
   \<and> extractFeatures example_lexicon no_fuzzy ''Bed with drawers'' = []"
proof -
  have g: "getCategoriesFromText example_lexicon no_fuzzy (lower ''Bed with drawers'') = []"
    by code_simp
  from extractFeatures_scan_then_disambiguation [of example_lexicon no_fuzzy "''Bed with drawers''"]
  have "set (extractFeatures example_lexicon no_fuzzy ''Bed with drawers'')
          \<subseteq> set (getCategoriesFromText example_lexicon no_fuzzy (lower ''Bed with drawers''))"
    by (rule conjunct2)
  then have "extractFeatures example_lexicon no_fuzzy ''Bed with drawers'' = []"
    unfolding g by simp
  with g show ?thesis by (rule conjI)
qed

text \<open>
  C2, as the spec has it, fails: on \<open>Bed with drawers\<close> the pattern pass detects
  \<open>storage\<close>, which is not in the list of the pipeline.
\<close>

theorem pattern_feature_not_in_pipeline:
  "\<not> set (extractContextualCategories literal_search no_finditer
             example_patterns ([] :: (string \<times> string) list) example_categories ''Bed with drawers'')
       \<subseteq> set (extractFeatures example_lexicon no_fuzzy ''Bed with drawers'')"
  by code_simp

text \<open>
  C1, as the code has it. \<open>structureQuery\<close> has no exception handler: an exception
  raised by the product-type classifier, or, once line 51 has unpacked the feature list,
  by the classification extractor or the price extractor, leaves \<open>structureQuery\<close> as
  it is; no result with empty fields stands in for it.
\<close>

theorem structureQuery_propagates_exceptions:
  "(classify query = Inl e \<longrightarrow>
      structureQuery classify fe fm classification price query = Inl e)
   \<and> (classify query = Inr (types, confidences, corrected)
        \<and> unpack_pair (extractFeatures fe fm corrected) = Inr unpacked
        \<and> classification query = Inl e \<longrightarrow>
      structureQuery classify fe fm classification price query = Inl e)
   \<and> (classify query = Inr (types, confidences, corrected)
        \<and> unpack_pair (extractFeatures fe fm corrected) = Inr unpacked
        \<and> classification query = Inr summary \<and> price query = Inl e \<longrightarrow>
      structureQuery classify fe fm classification price query = Inl e)"
  by (cases unpacked) (simp add: structureQuery_def)

theorem structureQuery_propagates_exceptions_witness:
  "failing_collaborator ''leather sofa'' = Inl (CollaboratorError ''model not loaded'')
   \<and> structureQuery failing_collaborator example_lexicon no_fuzzy example_classification
        example_price ''leather sofa'' = Inl (CollaboratorError ''model not loaded'')
   \<and> example_classifier ''l shape leather sofa'' = Inr ([''Unknown''], [], ''l shape leather sofa'')
   \<and> unpack_pair (extractFeatures example_lexicon no_fuzzy ''l shape leather sofa'')
        = Inr (''l shape'', ''leather'')
   \<and> structureQuery example_classifier example_lexicon no_fuzzy failing_collaborator
        example_price ''l shape leather sofa'' = Inl (CollaboratorError ''model not loaded'')"
proof -
  let ?e = "CollaboratorError ''model not loaded''"
  have a: "failing_collaborator ''leather sofa'' = Inl ?e"
    and b: "example_classifier ''l shape leather sofa'' = Inr ([''Unknown''], [], ''l shape leather sofa'')"
    and d: "failing_collaborator ''l shape leather sofa'' = Inl ?e"
    by (simp_all only: failing_collaborator_def example_classifier_def)
  have u: "unpack_pair (extractFeatures example_lexicon no_fuzzy ''l shape leather sofa'')
        = Inr (''l shape'', ''leather'')"
    by code_simp
  have 1: "structureQuery failing_collaborator example_lexicon no_fuzzy example_classification
        example_price ''leather sofa'' = Inl ?e"
    using structureQuery_propagates_exceptions
            [of failing_collaborator "''leather sofa''" ?e example_lexicon no_fuzzy
                example_classification example_price, THEN conjunct1] a
    by (rule mp)
  have 2: "structureQuery example_classifier example_lexicon no_fuzzy failing_collaborator
        example_price ''l shape leather sofa'' = Inl ?e"
    using structureQuery_propagates_exceptions
            [of example_classifier "''l shape leather sofa''" ?e example_lexicon no_fuzzy
                failing_collaborator example_price "[''Unknown'']" "[]" "''l shape leather sofa''"
                "(''l shape'', ''leather'')", THEN conjunct2, THEN conjunct1]
          conjI [OF b conjI [OF u d]]
    by (rule mp)
  show ?thesis by (intro conjI a b u 1 2)
qed

text \<open>
  C1, as the spec has it, fails: when the product-type classifier raises, the call
  returns no \<open>ParserResult\<close>; the exception reaches the caller.
\<close>

theorem structureQuery_fault_reaches_caller:
  "structureQuery failing_collaborator example_lexicon no_fuzzy example_classification
        example_price ''leather sofa'' = Inl (CollaboratorError ''model not loaded'')"
  by (simp add: structureQuery_def failing_collaborator_def)

text \<open>
  C7. No \<open>ParserResult\<close> is assembled. With a classifier that returns the sentinel
  \<open>["Unknown"]\<close>, no confidence and the query unchanged, \<open>leather sofa\<close> (one feature)
  raises \<open>ValueError\<close> at the unpacking, and \<open>l shape leather sofa\<close> (two features)
  raises \<open>TypeError\<close> at the \<open>ParserResult\<close> call.
\<close>

theorem structureQuery_unknown_sentinel_raises:
  "structureQuery example_classifier example_lexicon no_fuzzy example_classification example_price
      ''leather sofa'' = Inl ValueError
   \<and> extractFeatures example_lexicon no_fuzzy ''l shape leather sofa'' = [''l shape'', ''leather'']
   \<and> structureQuery example_classifier example_lexicon no_fuzzy example_classification example_price
      ''l shape leather sofa'' = Inl TypeError"
  by code_simp

text \<open>
  C10. \<open>suggestQueryResults\<close> never returns \<open>False\<close>: the result of \<open>suggestsQuery\<close> is
  truthy, and the returned value is a dict with exactly the keys \<open>product_name\<close>,
  \<open>brand_name\<close> and \<open>styles\<close>, in this order, each bound to a list; a database that
  raises gives empty lists.
\<close>

theorem suggestQueryResults_never_False:
  "suggestQueryResults run_query PRODUCT_TABLE BRAND_TABLE all_style_terms query \<noteq> PyBool False
   \<and> (\<exists>products brands style_names.
        suggestQueryResults run_query PRODUCT_TABLE BRAND_TABLE all_style_terms query =
          PyDict [(''product_name'', PyList products), (''brand_name'', PyList brands),
                  (''styles'', PyList style_names)])
   \<and> truthy (suggestsQuery run_query PRODUCT_TABLE BRAND_TABLE all_style_terms query)"
  by (simp add: suggestQueryResults_def suggestsQuery_def truthy_def Let_def)

theorem suggestQueryResults_never_False_witness:
  "suggestQueryResults example_database ''Product'' ''Brand'' (buildStyleMappings example_styles) ''Mod''
     = PyDict [(''product_name'', PyList [PyDict [(''id'', PyInt 7), (''name'', PyStr ''Modena sofa'')]]),
               (''brand_name'', PyList []),
               (''styles'', PyList [PyStr ''Modern''])]
   \<and> suggestQueryResults example_database ''Product'' ''Brand'' (buildStyleMappings example_styles) ''Mod''
     \<noteq> PyBool False
   \<and> suggestQueryResults failing_database ''Product'' ''Brand'' (buildStyleMappings example_styles) ''m''
     = PyDict [(''product_name'', PyList []), (''brand_name'', PyList []),
               (''styles'', PyList [PyStr ''Mid-Century Modern'', PyStr ''Modern''])]"
proof -
  have a: "suggestQueryResults example_database ''Product'' ''Brand'' (buildStyleMappings example_styles) ''Mod''
     = PyDict [(''product_name'', PyList [PyDict [(''id'', PyInt 7), (''name'', PyStr ''Modena sofa'')]]),
               (''brand_name'', PyList []),
               (''styles'', PyList [PyStr ''Modern''])]"
    by code_simp
  have b: "suggestQueryResults failing_database ''Product'' ''Brand'' (buildStyleMappings example_styles) ''m''
     = PyDict [(''product_name'', PyList []), (''brand_name'', PyList []),
               (''styles'', PyList [PyStr ''Mid-Century Modern'', PyStr ''Modern''])]"
    by code_simp
  have c: "suggestQueryResults example_database ''Product'' ''Brand'' (buildStyleMappings example_styles) ''Mod''
     \<noteq> PyBool False"
    using suggestQueryResults_never_False
      [of example_database "''Product''" "''Brand''" "buildStyleMappings example_styles" "''Mod''"]
    by (rule conjunct1)
  show ?thesis by (intro conjI a b c)
qed

end
